theory Spec2Isabelle
  imports Main
begin

section \<open>Errors (errors.go)\<close>

text \<open>
  The error values of the package. \<open>ErrMissingPart\<close> and \<open>ErrInvalidPartType\<close> are the two
  sentinel values, \<open>InvalidPartError\<close>, \<open>IOReadError\<close> and \<open>IOWriteError\<close> the three error
  structs. Errors that come from outside the package are \<open>EOF\<close> (io.EOF, which
  \<open>getPartInStdin\<close> tests for), \<open>ErrSyntax\<close> and \<open>ErrRange\<close> (what strconv.Atoi reports)
  and \<open>ErrorString msg\<close> (any other library error, identified by its message).
\<close>

datatype error =
    ErrMissingPart
  | ErrInvalidPartType
  | InvalidPartError int
  | IOReadError error
  | IOWriteError error
  | EOF
  | ErrSyntax
  | ErrRange
  | ErrorString string

text \<open>\<open>Unwrap\<close> is defined for the two I/O structs only; \<open>errors_Is\<close> is errors.Is, which
  follows the \<open>Unwrap\<close> chain and compares with \<open>==\<close>.\<close>

fun Unwrap :: "error \<Rightarrow> error option" where
  "Unwrap (IOReadError e) = Some e"
| "Unwrap (IOWriteError e) = Some e"
| "Unwrap _ = None"

fun errors_Is :: "error \<Rightarrow> error \<Rightarrow> bool" where
  "errors_Is (IOReadError e) target = (IOReadError e = target \<or> errors_Is e target)"
| "errors_Is (IOWriteError e) target = (IOWriteError e = target \<or> errors_Is e target)"
| "errors_Is e target = (e = target)"

section \<open>Decimal conversion (strconv.Itoa, strconv.Atoi)\<close>

definition LF :: char where
  "LF = CHR 0x0A"

definition TAB :: char where
  "TAB = CHR 0x09"

definition digit_char :: "nat \<Rightarrow> char" where
  "digit_char d = ''0123456789'' ! d"

fun decimal :: "nat \<Rightarrow> string" where
  "decimal n = (if n < 10 then [digit_char n] else decimal (n div 10) @ [digit_char (n mod 10)])"

declare decimal.simps [simp del]

definition Itoa :: "int \<Rightarrow> string" where
  "Itoa i = (if i < 0 then CHR ''-'' # decimal (nat (- i)) else decimal (nat i))"

definition digit_val :: "char \<Rightarrow> nat option" where
  "digit_val c = map_of
     [(CHR ''0'', 0), (CHR ''1'', 1), (CHR ''2'', 2), (CHR ''3'', 3), (CHR ''4'', 4),
      (CHR ''5'', 5), (CHR ''6'', 6), (CHR ''7'', 7), (CHR ''8'', 8), (CHR ''9'', 9)] c"

fun parse_digits :: "string \<Rightarrow> nat \<Rightarrow> nat option" where
  "parse_digits [] n = Some n"
| "parse_digits (c # cs) n =
     (case digit_val c of None \<Rightarrow> None | Some d \<Rightarrow> parse_digits cs (n * 10 + d))"

text \<open>
  strconv.Atoi on a 64-bit platform: an optional sign, then at least one decimal digit and
  nothing else; a value outside the range of int is a range error. The caller only looks
  at whether an error came back.
\<close>

definition Atoi :: "string \<Rightarrow> error + int" where
  "Atoi s =
     (let neg = (s \<noteq> [] \<and> hd s = CHR ''-'');
          ds = (if s \<noteq> [] \<and> (hd s = CHR ''-'' \<or> hd s = CHR ''+'') then tl s else s)
      in if ds = [] then Inl ErrSyntax
         else case parse_digits ds 0 of
                None \<Rightarrow> Inl ErrSyntax
              | Some n \<Rightarrow>
                  (let v = (if neg then - int n else int n)
                   in if v < - (2 ^ 63) \<or> 2 ^ 63 - 1 < v then Inl ErrRange else Inr v))"

text \<open>The \<open>Error\<close> methods of errors.go, with \<open>%d\<close> and \<open>%v\<close> written out.\<close>

fun Error :: "error \<Rightarrow> string" where
  "Error ErrMissingPart = ''no part specified, please provide a valid part''"
| "Error ErrInvalidPartType = ''invalid part type. The part type allowed is int''"
| "Error (InvalidPartError p) = ''invalid part: '' @ Itoa p @ ''. The valid parts are (1/2)''"
| "Error (IOReadError e) = ''failed to read input: '' @ Error e"
| "Error (IOWriteError e) = ''failed to write input: '' @ Error e"
| "Error EOF = ''EOF''"
| "Error ErrSyntax = ''invalid syntax''"
| "Error ErrRange = ''value out of range''"
| "Error (ErrorString s) = s"

section \<open>Parts and challenges (challenge.go)\<close>

type_synonym Challenge = "string \<Rightarrow> int"

type_synonym Part = int

definition NewPart :: "int \<Rightarrow> Part \<times> error option" where
  "NewPart p = (if p \<noteq> 1 \<and> p \<noteq> 2 then (0, Some (InvalidPartError p)) else (p, None))"

section \<open>The world outside the package\<close>

text \<open>
  An \<open>Env\<close> (io.go) holds the two streams and the command-line arguments. A stream is an
  object with a state of its own: the writer is either a buffer that accepts every write
  (bytes.Buffer, a terminal) or one that rejects every write with a fixed error (the
  \<open>failingWriter\<close> of io_test.go); the reader holds the bytes not yet read and the error
  it reports once they are used up (io.EOF for a buffer or a closed terminal).

  The world also holds what the package reaches through the operating system: the process
  environment (os.Getenv), the clipboard (which keeps the last text copied, or rejects
  every copy with a fixed error), and the list of the lookups made so far, in order:
  every call of os.Getenv, of fmt.Fscanln on the input stream and of the clipboard's
  CopyText is recorded there.
\<close>

datatype writer = Buffer string | failingWriter error

record reader =
  pending :: string
  at_end :: error

record Env =
  Stdin :: reader
  Stdout :: writer
  Args :: "string list"

datatype call = Getenv string | Fscanln | CopyText string

record clipboard =
  held :: string
  fault :: "error option"

record world =
  console :: Env
  environ :: "string \<rightharpoonup> string"
  clip :: clipboard
  calls :: "call list"

subsection \<open>Writing to the output stream (fmt.Fprintf, fmt.Fprintln)\<close>

fun writer_Write :: "writer \<Rightarrow> string \<Rightarrow> error option \<times> writer" where
  "writer_Write (Buffer b) s = (None, Buffer (b @ s))"
| "writer_Write (failingWriter e) s = (Some e, failingWriter e)"

definition Fprint :: "string \<Rightarrow> world \<Rightarrow> error option \<times> world" where
  "Fprint s w =
     (case writer_Write (Stdout (console w)) s of
        (err, out) \<Rightarrow> (err, w\<lparr>console := (console w)\<lparr>Stdout := out\<rparr>\<rparr>))"

subsection \<open>The process environment (os.Getenv)\<close>

definition os_Getenv :: "string \<Rightarrow> world \<Rightarrow> string \<times> world" where
  "os_Getenv key w =
     ((case environ w key of None \<Rightarrow> [] | Some v \<Rightarrow> v), w\<lparr>calls := calls w @ [Getenv key]\<rparr>)"

subsection \<open>The clipboard (clipboard.CopyText)\<close>

definition clipboard_CopyText :: "string \<Rightarrow> world \<Rightarrow> error option \<times> world" where
  "clipboard_CopyText v w =
     (case fault (clip w) of
        Some e \<Rightarrow> (Some e, w\<lparr>calls := calls w @ [CopyText v]\<rparr>)
      | None \<Rightarrow> (None, w\<lparr>clip := (clip w)\<lparr>held := v\<rparr>, calls := calls w @ [CopyText v]\<rparr>))"

subsection \<open>Command-line flags (package flag, one string flag \<open>part\<close>)\<close>

text \<open>
  \<open>fs_Parse\<close> is \<open>FlagSet.Parse\<close> for the flag set that \<open>getPartInFlag\<close> builds: the only
  flag is the string flag \<open>part\<close>, error handling is ContinueOnError. It walks the
  arguments as the library does: an argument that is shorter than two bytes or does not
  start with \<open>-\<close>, and the argument \<open>--\<close>, end the flags; one or two dashes introduce a
  name; \<open>name=value\<close> carries its value, otherwise the next argument is the value. The
  result is the value of \<open>part\<close> (the last one given, \<open>[]\<close> when none is) and, on failure,
  the error together with the texts the library prints on the flag set's output: the
  message and the usage (the \<open>Usage\<close> function of \<open>getPartInFlag\<close>, then PrintDefaults).
\<close>

definition usage :: "string list" where
  "usage =
     [''Usage: goaoc [options]'' @ [LF],
      ''  -part string'' @ [LF] @ ''    '' @ [TAB]
        @ ''Part of the challenge, valid values are (1/2)'' @ [LF]]"

definition failf :: "string \<Rightarrow> (error \<times> string list) option" where
  "failf msg = Some (ErrorString msg, (msg @ [LF]) # usage)"

definition ErrHelp :: error where
  "ErrHelp = ErrorString ''flag: help requested''"

fun fs_Parse :: "string list \<Rightarrow> string \<Rightarrow> string \<times> (error \<times> string list) option" where
  "fs_Parse [] part = (part, None)"
| "fs_Parse (s # rest) part =
     (if length s < 2 \<or> hd s \<noteq> CHR ''-'' then (part, None)
      else if s = ''--'' then (part, None)
      else
        let name = (if s ! 1 = CHR ''-'' then drop 2 s else drop 1 s)
        in if name = [] \<or> hd name = CHR ''-'' \<or> hd name = CHR ''='' then
             (part, failf (''bad flag syntax: '' @ s))
           else
             let hasValue = (CHR ''='' \<in> set (tl name));
                 val = tl (dropWhile (\<lambda>c. c \<noteq> CHR ''='') (tl name));
                 name = hd name # takeWhile (\<lambda>c. c \<noteq> CHR ''='') (tl name)
             in if name \<noteq> ''part'' then
                  (if name = ''help'' \<or> name = ''h'' then (part, Some (ErrHelp, usage))
                   else (part, failf (''flag provided but not defined: -'' @ name)))
                else if hasValue then fs_Parse rest val
                else (case rest of
                        [] \<Rightarrow> (part, failf (''flag needs an argument: -'' @ name))
                      | v # rest' \<Rightarrow> fs_Parse rest' v))"

subsection \<open>Scanning one token from the input stream (fmt.Fscanln)\<close>

text \<open>
  \<open>fmt_Fscanln\<close> is \<open>fmt.Fscanln(env.Stdin, &part)\<close> for one string operand: leading
  blanks are skipped (a newline there is the error "unexpected newline", the end of the
  input is io.EOF), the token runs to the next blank or to the end of the input, and after
  it only blanks may come before the newline or the end of the input ("expected newline").
  A read error of the stream ends the scan with that error. The operand is assigned once
  the token is complete, so the string returned is \<open>[]\<close> when the scan fails before that
  and the token when it fails after. Each byte is taken as one character, which is what
  the library does on ASCII input.
\<close>

definition isSpace :: "char \<Rightarrow> bool" where
  "isSpace c = (c \<in> set [CHR '' '', CHR 0x09, CHR 0x0A, CHR 0x0B, CHR 0x0C, CHR 0x0D])"

fun SkipSpace :: "string \<Rightarrow> error \<Rightarrow> string \<times> error option" where
  "SkipSpace [] e = ([], if e = EOF then None else Some e)"
| "SkipSpace (c # cs) e =
     (if c = LF then (cs, Some (ErrorString ''unexpected newline''))
      else if isSpace c then SkipSpace cs e
      else (c # cs, None))"

fun token :: "string \<Rightarrow> error \<Rightarrow> string \<Rightarrow> error + string \<times> string" where
  "token [] e acc = (if e = EOF then Inr (acc, []) else Inl e)"
| "token (c # cs) e acc = (if isSpace c then Inr (acc, c # cs) else token cs e (acc @ [c]))"

fun expect_newline :: "string \<Rightarrow> error \<Rightarrow> string \<times> error option" where
  "expect_newline [] e = ([], if e = EOF then None else Some e)"
| "expect_newline (c # cs) e =
     (if c = LF then (cs, None)
      else if isSpace c then expect_newline cs e
      else (cs, Some (ErrorString ''expected newline'')))"

definition scanln :: "reader \<Rightarrow> (string \<times> error option) \<times> reader" where
  "scanln r =
     (case SkipSpace (pending r) (at_end r) of
        (rest, Some e) \<Rightarrow> (([], Some e), r\<lparr>pending := rest\<rparr>)
      | (rest, None) \<Rightarrow>
          if rest = [] then (([], Some EOF), r\<lparr>pending := []\<rparr>)
          else (case token rest (at_end r) [] of
                  Inl e \<Rightarrow> (([], Some e), r\<lparr>pending := []\<rparr>)
                | Inr (tok, rest') \<Rightarrow>
                    (case expect_newline rest' (at_end r) of
                       (rest'', err) \<Rightarrow> ((tok, err), r\<lparr>pending := rest''\<rparr>))))"

definition fmt_Fscanln :: "world \<Rightarrow> (string \<times> error option) \<times> world" where
  "fmt_Fscanln w =
     (case scanln (Stdin (console w)) of
        (res, r) \<Rightarrow> (res, w\<lparr>console := (console w)\<lparr>Stdin := r\<rparr>, calls := calls w @ [Fscanln]\<rparr>))"

section \<open>The console manager (io.go)\<close>

text \<open>
  Every method returns Go's pair of a string and an error, and the world it leaves.
  The streams and arguments of the manager's \<open>Env\<close> are the \<open>console\<close> of the world.
\<close>

type_synonym 'a io = "world \<Rightarrow> 'a \<times> world"

fun print_all :: "string list \<Rightarrow> world \<Rightarrow> world" where
  "print_all [] w = w"
| "print_all (s # ss) w = print_all ss (snd (Fprint s w))"

definition getPartInFlag :: "(string \<times> error option) io" where
  "getPartInFlag w =
     (case fs_Parse (Args (console w)) [] of
        (part, None) \<Rightarrow> ((part, None), w)
      | (part, Some (err, out)) \<Rightarrow> (([], Some (IOReadError err)), print_all out w))"

definition getPartInEnv :: "(string \<times> error option) io" where
  "getPartInEnv w =
     (case os_Getenv ''GOAOC_CHALLENGE_PART'' w of (part, w') \<Rightarrow> ((part, None), w'))"

definition getPartInStdin :: "(string \<times> error option) io" where
  "getPartInStdin w =
     (case Fprint (''Which part do you want to run? (1/2)'' @ [LF]) w of
        (Some err, w1) \<Rightarrow> (([], Some err), w1)
      | (None, w1) \<Rightarrow>
          (case fmt_Fscanln w1 of
             ((part, err), w2) \<Rightarrow>
               (case err of
                  Some e \<Rightarrow>
                    if errors_Is e EOF then (([], Some (IOReadError ErrMissingPart)), w2)
                    else ((part, None), w2)
                | None \<Rightarrow> ((part, None), w2))))"

text \<open>The loop of \<open>Read\<close> over its list of checks; \<open>part\<close> is the named result, which
  holds what the last check returned.\<close>

fun run_checks :: "(string \<times> error option) io list \<Rightarrow> string \<Rightarrow> (string \<times> error option) io" where
  "run_checks [] part w = ((part, Some (IOReadError ErrMissingPart)), w)"
| "run_checks (check # rest) part w =
     (case check w of
        ((p, Some err), w') \<Rightarrow> (([], Some err), w')
      | ((p, None), w') \<Rightarrow> if p \<noteq> [] then ((p, None), w') else run_checks rest p w')"

definition checks :: "(string \<times> error option) io list" where
  "checks = [getPartInFlag, getPartInEnv, getPartInStdin]"

definition DefaultConsoleManager_Read :: "string \<Rightarrow> (string \<times> error option) io" where
  "DefaultConsoleManager_Read arg w =
     (if arg \<noteq> ''part'' then (([], None), w) else run_checks checks [] w)"

definition toClipboard :: "string \<Rightarrow> world \<Rightarrow> world" where
  "toClipboard v w =
     (case os_Getenv ''GOAOC_DISABLE_COPY_CLIPBOARD'' w of
        (envVar, w1) \<Rightarrow>
          if envVar = ''true'' then w1
          else (case clipboard_CopyText v w1 of
                  (Some err, w2) \<Rightarrow>
                    snd (Fprint (''Error copying to clipboard: '' @ Error err @ [LF]) w2)
                | (None, w2) \<Rightarrow> snd (Fprint (''Copied to clipboard: '' @ v @ [LF]) w2)))"

definition DefaultConsoleManager_Write :: "string \<Rightarrow> (error option) io" where
  "DefaultConsoleManager_Write result w =
     (case Fprint (''The challenge result is '' @ result @ [LF]) w of
        (Some err, w1) \<Rightarrow> (Some (IOWriteError err), w1)
      | (None, w1) \<Rightarrow> (None, toClipboard result w1))"

section \<open>Running a challenge (goaoc.go)\<close>

text \<open>The interface \<open>IOManager\<close> is the record of its two methods.\<close>

record IOManager =
  Write :: "string \<Rightarrow> (error option) io"
  Read :: "string \<Rightarrow> (string \<times> error option) io"

definition NewConsoleManager :: IOManager where
  "NewConsoleManager = \<lparr>Write = DefaultConsoleManager_Write, Read = DefaultConsoleManager_Read\<rparr>"

record runOptions =
  manager :: "IOManager option"
  part :: Part

type_synonym RunOption = "runOptions \<Rightarrow> error option \<times> runOptions"

definition WithManager :: "IOManager \<Rightarrow> RunOption" where
  "WithManager m = (\<lambda>options. (None, options\<lparr>manager := Some m\<rparr>))"

definition WithPart :: "int \<Rightarrow> RunOption" where
  "WithPart p = (\<lambda>options. (None, options\<lparr>part := p\<rparr>))"

text \<open>\<open>executeChallenge\<close> returns \<open>Inl\<close> of the value it panics with.\<close>

definition executeChallenge :: "string \<Rightarrow> Challenge \<Rightarrow> Challenge \<Rightarrow> Part \<Rightarrow> error + int" where
  "executeChallenge input partOne partTwo p =
     (if p = 1 then Inr (partOne input)
      else if p = 2 then Inr (partTwo input)
      else Inl ErrMissingPart)"

fun apply_options :: "RunOption list \<Rightarrow> runOptions \<Rightarrow> runOptions" where
  "apply_options [] opts = opts"
| "apply_options (option # rest) opts = apply_options rest (snd (option opts))"

definition injectOptions :: "runOptions \<Rightarrow> RunOption list \<Rightarrow> (error option \<times> runOptions) io" where
  "injectOptions opts0 options w =
     (let opts1 = apply_options options opts0;
          opts = (if manager opts1 = None then opts1\<lparr>manager := Some NewConsoleManager\<rparr> else opts1)
      in if part opts = 0 then
           (case manager opts of
              None \<Rightarrow> ((None, opts), w)
            | Some m \<Rightarrow>
               (case Read m ''part'' w of
                  ((partStr, Some err), w') \<Rightarrow> ((Some err, opts), w')
                | ((partStr, None), w') \<Rightarrow>
                    (case Atoi partStr of
                       Inl err \<Rightarrow> ((Some ErrInvalidPartType, opts), w')
                     | Inr p \<Rightarrow>
                         (case NewPart p of
                            (np, Some err) \<Rightarrow> ((Some err, opts\<lparr>part := np\<rparr>), w')
                          | (np, None) \<Rightarrow> ((None, opts\<lparr>part := np\<rparr>), w')))))
         else ((None, opts), w))"

text \<open>\<open>Run\<close> either returns an error value (\<open>None\<close> is nil) or panics.\<close>

datatype outcome = Returned "error option" | Panicked error

definition Run :: "string \<Rightarrow> Challenge \<Rightarrow> Challenge \<Rightarrow> RunOption list \<Rightarrow> outcome io" where
  "Run input partOne partTwo options w =
     (case injectOptions \<lparr>manager = None, part = 0\<rparr> options w of
        ((Some err, opts), w1) \<Rightarrow> (Returned (Some err), w1)
      | ((None, opts), w1) \<Rightarrow>
          (case executeChallenge input partOne partTwo (part opts) of
             Inl v \<Rightarrow> (Panicked v, w1)
           | Inr result \<Rightarrow>
               (case manager opts of
                  None \<Rightarrow> (Panicked (ErrorString ''nil pointer dereference''), w1)
                | Some m \<Rightarrow>
                    (case Write m (Itoa result) w1 of
                       (Some err, w2) \<Rightarrow> (Returned (Some err), w2)
                     | (None, w2) \<Rightarrow> (Returned None, w2)))))"

subsection \<open>The test manager (mock/manager.go) and the example challenges\<close>

definition formatResult :: "string \<Rightarrow> string" where
  "formatResult result = ''The challenge result is '' @ result @ [LF]"

definition NewManager :: "string \<Rightarrow> error option \<Rightarrow> error option \<Rightarrow> IOManager" where
  "NewManager p errSelectPart errOutput =
     \<lparr>Write = (\<lambda>result w. case errOutput of
                  Some e \<Rightarrow> (Some e, w)
                | None \<Rightarrow> Fprint (formatResult result) w),
      Read = (\<lambda>arg w. ((p, errSelectPart), w))\<rparr>"

definition partOne :: Challenge where
  "partOne input = int (length input)"

definition partTwo :: Challenge where
  "partTwo input = int (length input) * 2"

subsection \<open>Test fixtures (io_test.go, goaoc_test.go)\<close>

definition mockEnv :: "string list \<Rightarrow> string \<Rightarrow> writer \<Rightarrow> Env" where
  "mockEnv args input output =
     \<lparr>Stdin = \<lparr>pending = input, at_end = EOF\<rparr>, Stdout = output, Args = args\<rparr>"

definition mockPartOne :: Challenge where
  "mockPartOne input = 42"

definition mockPartTwo :: Challenge where
  "mockPartTwo input = 24"

text \<open>An \<open>Env\<close> whose input stream fails with an error that is not io.EOF.\<close>

definition brokenEnv :: Env where
  "brokenEnv = \<lparr>Stdin = \<lparr>pending = [], at_end = ErrorString ''input/output error''\<rparr>,
                Stdout = Buffer [], Args = []\<rparr>"

text \<open>A process that starts with the given console and environment, a working clipboard
  and no lookup made yet.\<close>

definition start :: "Env \<Rightarrow> (string \<rightharpoonup> string) \<Rightarrow> world" where
  "start env vars = \<lparr>console = env, environ = vars, clip = \<lparr>held = [], fault = None\<rparr>, calls = []\<rparr>"

section \<open>Options and the forced part\<close>

lemma injectOptions_forced:
  assumes "p \<noteq> 0"
  shows "injectOptions \<lparr>manager = None, part = 0\<rparr> [WithManager m, WithPart p] w
           = ((None, \<lparr>manager = Some m, part = p\<rparr>), w)"
    and "injectOptions \<lparr>manager = None, part = 0\<rparr> [WithPart p, WithManager m] w
           = ((None, \<lparr>manager = Some m, part = p\<rparr>), w)"
    and "injectOptions \<lparr>manager = None, part = 0\<rparr> [WithPart p] w
           = ((None, \<lparr>manager = Some NewConsoleManager, part = p\<rparr>), w)"
  using assms by (simp_all add: injectOptions_def WithManager_def WithPart_def Let_def)

text \<open>With a part forced, a run is the dispatch followed by the manager's \<open>Write\<close>.\<close>

lemma Run_forced:
  assumes "p \<noteq> 0"
  shows "Run input one two [WithManager m, WithPart p] w =
           (case executeChallenge input one two p of
              Inl v \<Rightarrow> (Panicked v, w)
            | Inr result \<Rightarrow>
                (case Write m (Itoa result) w of
                   (Some err, w2) \<Rightarrow> (Returned (Some err), w2)
                 | (None, w2) \<Rightarrow> (Returned None, w2)))"
    and "Run input one two [WithPart p, WithManager m] w =
           (case executeChallenge input one two p of
              Inl v \<Rightarrow> (Panicked v, w)
            | Inr result \<Rightarrow>
                (case Write m (Itoa result) w of
                   (Some err, w2) \<Rightarrow> (Returned (Some err), w2)
                 | (None, w2) \<Rightarrow> (Returned None, w2)))"
    and "Run input one two [WithPart p] w
           = Run input one two [WithManager NewConsoleManager, WithPart p] w"
  using assms by (simp_all add: Run_def injectOptions_forced split: sum.splits)

text \<open>
  Claim C3. For every non-zero part given through \<open>WithPart\<close>, \<open>Run\<close> does not call the
  manager's \<open>Read\<close>: the run, that is its outcome and the world it leaves, is the same
  whatever \<open>Read\<close> the manager has, in either order of the two options, and also for the
  console manager that \<open>Run\<close> takes when no manager is given. A \<open>Read\<close> that returns an
  error, writes to the output or consumes input therefore has no effect on the run.
\<close>

theorem with_part_skips_read:
  assumes "p \<noteq> 0"
  shows "Run input one two [WithManager (m\<lparr>Read := r\<rparr>), WithPart p] w
           = Run input one two [WithManager m, WithPart p] w
       \<and> Run input one two [WithPart p, WithManager (m\<lparr>Read := r\<rparr>)] w
           = Run input one two [WithPart p, WithManager m] w
       \<and> Run input one two [WithManager (NewConsoleManager\<lparr>Read := r\<rparr>), WithPart p] w
           = Run input one two [WithPart p] w"
  using assms by (simp add: Run_forced split: sum.splits)

text \<open>The test manager of goaoc_test.go whose \<open>Read\<close> returns an error, with part 2
  forced: the run succeeds and writes the result of the second function.\<close>

theorem with_part_skips_read_witness:
  "(2::int) \<noteq> 0
   \<and> Run ''input'' mockPartOne mockPartTwo
        [WithManager (NewManager ''2'' (Some (ErrorString ''error when calling Read'')) None),
         WithPart 2]
        (start (mockEnv [] [] (Buffer [])) Map.empty)
     = (Returned None,
        start (mockEnv [] [] (Buffer (''The challenge result is 24'' @ [LF]))) Map.empty)"
proof -
  have two: "(2::int) \<noteq> 0" by simp
  have m: "(NewManager ''2'' None None)
             \<lparr>Read := (\<lambda>arg w. ((''2'', Some (ErrorString ''error when calling Read'')), w))\<rparr>
           = NewManager ''2'' (Some (ErrorString ''error when calling Read'')) None"
    by (simp add: NewManager_def)
  have "Run ''input'' mockPartOne mockPartTwo
          [WithManager (NewManager ''2'' None None), WithPart 2]
          (start (mockEnv [] [] (Buffer [])) Map.empty)
        = (Returned None,
           start (mockEnv [] [] (Buffer (''The challenge result is 24'' @ [LF]))) Map.empty)"
    by (simp add: Run_forced executeChallenge_def mockPartTwo_def NewManager_def Fprint_def
        formatResult_def start_def mockEnv_def Itoa_def decimal.simps digit_char_def)
  with with_part_skips_read [OF two, where input = "''input''" and one = mockPartOne
      and two = mockPartTwo and m = "NewManager ''2'' None None"
      and r = "\<lambda>arg w. ((''2'', Some (ErrorString ''error when calling Read'')), w)"
      and w = "start (mockEnv [] [] (Buffer [])) Map.empty"] m two
  show ?thesis by simp
qed

text \<open>
  Claim C10. A part given through \<open>WithPart\<close> that is neither 0, 1 nor 2 (3, say) is not
  validated: no source is read, \<open>NewPart\<close> is not called and no \<open>InvalidPartError\<close> is
  returned. \<open>executeChallenge\<close> reaches its default branch and \<open>Run\<close> panics with
  \<open>ErrMissingPart\<close>, leaving the world as it was, with the console manager as with any
  other.
\<close>

theorem invalid_forced_part_panics:
  assumes "p \<noteq> 0" "p \<noteq> 1" "p \<noteq> 2"
  shows "Run input one two [WithPart p] w = (Panicked ErrMissingPart, w)
       \<and> Run input one two [WithManager m, WithPart p] w = (Panicked ErrMissingPart, w)"
  using assms by (simp add: Run_forced executeChallenge_def)

theorem invalid_forced_part_panics_witness:
  "(3::int) \<noteq> 0 \<and> (3::int) \<noteq> 1 \<and> (3::int) \<noteq> 2
   \<and> Run ''abc'' partOne partTwo [WithPart 3] (start (mockEnv [] [] (Buffer [])) Map.empty)
       = (Panicked ErrMissingPart, start (mockEnv [] [] (Buffer [])) Map.empty)"
  using invalid_forced_part_panics [where p = 3 and input = "''abc''" and one = partOne
      and two = partTwo and w = "start (mockEnv [] [] (Buffer [])) Map.empty"
      and m = NewConsoleManager]
  by simp

section \<open>Writing the result\<close>

lemma Fprint_Buffer:
  "Stdout (console w) = Buffer b \<Longrightarrow>
   Fprint s w = (None, w\<lparr>console := (console w)\<lparr>Stdout := Buffer (b @ s)\<rparr>\<rparr>)"
  by (simp add: Fprint_def)

lemma Fprint_keeps:
  "calls (snd (Fprint s w)) = calls w"
  "environ (snd (Fprint s w)) = environ w"
  "clip (snd (Fprint s w)) = clip w"
  "Stdin (console (snd (Fprint s w))) = Stdin (console w)"
  "Args (console (snd (Fprint s w))) = Args (console w)"
  by (simp_all add: Fprint_def split: prod.splits)

lemma toClipboard_disabled:
  "environ w ''GOAOC_DISABLE_COPY_CLIPBOARD'' = Some ''true'' \<Longrightarrow>
   toClipboard v w = w\<lparr>calls := calls w @ [Getenv ''GOAOC_DISABLE_COPY_CLIPBOARD'']\<rparr>"
  by (simp add: toClipboard_def os_Getenv_def)

lemma toClipboard_enabled:
  assumes "environ w ''GOAOC_DISABLE_COPY_CLIPBOARD'' \<noteq> Some ''true''"
  shows "calls (toClipboard v w) = calls w @ [Getenv ''GOAOC_DISABLE_COPY_CLIPBOARD'', CopyText v]"
    and "Stdout (console w) = Buffer b \<Longrightarrow>
         Stdout (console (toClipboard v w)) =
           Buffer (b @ (case fault (clip w) of
                          None \<Rightarrow> ''Copied to clipboard: '' @ v @ [LF]
                        | Some e \<Rightarrow> ''Error copying to clipboard: '' @ Error e @ [LF]))"
    and "fault (clip w) = None \<Longrightarrow> held (clip (toClipboard v w)) = v"
  using assms
  by (auto simp add: toClipboard_def os_Getenv_def clipboard_CopyText_def Fprint_def
      split: option.splits prod.splits)

lemma toClipboard_Stdout:
  assumes "Stdout (console w) = Buffer b"
  shows "Stdout (console (toClipboard v w)) =
           Buffer (b @ (if environ w ''GOAOC_DISABLE_COPY_CLIPBOARD'' = Some ''true'' then []
                        else case fault (clip w) of
                               None \<Rightarrow> ''Copied to clipboard: '' @ v @ [LF]
                             | Some e \<Rightarrow> ''Error copying to clipboard: '' @ Error e @ [LF]))"
  using assms toClipboard_enabled(2) [OF _ assms, of v]
  by (simp add: toClipboard_disabled)

lemma Write_Buffer:
  "Stdout (console w) = Buffer b \<Longrightarrow>
   DefaultConsoleManager_Write result w =
     (None, toClipboard result
              (w\<lparr>console := (console w)\<lparr>Stdout :=
                   Buffer (b @ ''The challenge result is '' @ result @ [LF])\<rparr>\<rparr>))"
  by (simp add: DefaultConsoleManager_Write_def Fprint_Buffer)

text \<open>
  Claim C9. When GOAOC_DISABLE_COPY_CLIPBOARD is exactly \<open>true\<close>, \<open>toClipboard\<close> does
  nothing but look the variable up: CopyText is not called, the clipboard and the output
  are as they were; a \<open>Write\<close> whose result line is accepted by the output stream then
  succeeds and the output grows by the result line and nothing else. For every other
  value of the variable, and when it is unset, \<open>toClipboard\<close> calls CopyText with the
  value; after a successful \<open>Write\<close> the result line is followed by the status line of the
  copy.
\<close>

theorem clipboard_switch:
  "(environ w ''GOAOC_DISABLE_COPY_CLIPBOARD'' = Some ''true'' \<longrightarrow>
      toClipboard v w = w\<lparr>calls := calls w @ [Getenv ''GOAOC_DISABLE_COPY_CLIPBOARD'']\<rparr>)
 \<and> (environ w ''GOAOC_DISABLE_COPY_CLIPBOARD'' = Some ''true'' \<and> Stdout (console w) = Buffer b \<longrightarrow>
      DefaultConsoleManager_Write v w =
        (None, w\<lparr>console := (console w)\<lparr>Stdout :=
                    Buffer (b @ ''The challenge result is '' @ v @ [LF])\<rparr>,
                 calls := calls w @ [Getenv ''GOAOC_DISABLE_COPY_CLIPBOARD'']\<rparr>))
 \<and> (environ w ''GOAOC_DISABLE_COPY_CLIPBOARD'' \<noteq> Some ''true'' \<longrightarrow>
      calls (toClipboard v w)
        = calls w @ [Getenv ''GOAOC_DISABLE_COPY_CLIPBOARD'', CopyText v])
 \<and> (environ w ''GOAOC_DISABLE_COPY_CLIPBOARD'' \<noteq> Some ''true'' \<and> Stdout (console w) = Buffer b \<longrightarrow>
      fst (DefaultConsoleManager_Write v w) = None
      \<and> calls (snd (DefaultConsoleManager_Write v w))
          = calls w @ [Getenv ''GOAOC_DISABLE_COPY_CLIPBOARD'', CopyText v]
      \<and> Stdout (console (snd (DefaultConsoleManager_Write v w)))
          = Buffer (b @ ''The challenge result is '' @ v @ [LF]
                      @ (case fault (clip w) of
                           None \<Rightarrow> ''Copied to clipboard: '' @ v @ [LF]
                         | Some e \<Rightarrow> ''Error copying to clipboard: '' @ Error e @ [LF])))"
proof (intro conjI impI)
  assume "environ w ''GOAOC_DISABLE_COPY_CLIPBOARD'' = Some ''true''"
  then show "toClipboard v w = w\<lparr>calls := calls w @ [Getenv ''GOAOC_DISABLE_COPY_CLIPBOARD'']\<rparr>"
    by (rule toClipboard_disabled)
next
  assume "environ w ''GOAOC_DISABLE_COPY_CLIPBOARD'' = Some ''true'' \<and> Stdout (console w) = Buffer b"
  then show "DefaultConsoleManager_Write v w =
          (None, w\<lparr>console := (console w)\<lparr>Stdout :=
                      Buffer (b @ ''The challenge result is '' @ v @ [LF])\<rparr>,
                   calls := calls w @ [Getenv ''GOAOC_DISABLE_COPY_CLIPBOARD'']\<rparr>)"
    by (simp add: Write_Buffer toClipboard_disabled)
next
  assume "environ w ''GOAOC_DISABLE_COPY_CLIPBOARD'' \<noteq> Some ''true''"
  then show "calls (toClipboard v w)
               = calls w @ [Getenv ''GOAOC_DISABLE_COPY_CLIPBOARD'', CopyText v]"
    by (rule toClipboard_enabled(1))
next
  assume a: "environ w ''GOAOC_DISABLE_COPY_CLIPBOARD'' \<noteq> Some ''true'' \<and> Stdout (console w) = Buffer b"
  let ?w1 = "w\<lparr>console := (console w)\<lparr>Stdout :=
                 Buffer (b @ ''The challenge result is '' @ v @ [LF])\<rparr>\<rparr>"
  have on1: "environ ?w1 ''GOAOC_DISABLE_COPY_CLIPBOARD'' \<noteq> Some ''true''"
    using a by simp
  have out1: "Stdout (console ?w1) = Buffer (b @ ''The challenge result is '' @ v @ [LF])"
    by simp
  show "fst (DefaultConsoleManager_Write v w) = None"
    using a by (simp add: Write_Buffer)
  show "calls (snd (DefaultConsoleManager_Write v w))
          = calls w @ [Getenv ''GOAOC_DISABLE_COPY_CLIPBOARD'', CopyText v]"
    using a toClipboard_enabled(1) [OF on1] by (simp add: Write_Buffer)
  show "Stdout (console (snd (DefaultConsoleManager_Write v w)))
          = Buffer (b @ ''The challenge result is '' @ v @ [LF]
                      @ (case fault (clip w) of
                           None \<Rightarrow> ''Copied to clipboard: '' @ v @ [LF]
                         | Some e \<Rightarrow> ''Error copying to clipboard: '' @ Error e @ [LF]))"
    using a toClipboard_enabled(2) [OF on1 out1] by (simp add: Write_Buffer)
qed

text \<open>The two settings of io_test.go: \<open>true\<close> leaves the result line alone, \<open>false\<close> copies.\<close>

theorem clipboard_switch_witness:
  "DefaultConsoleManager_Write ''42''
     (start (mockEnv [] [] (Buffer [])) [''GOAOC_DISABLE_COPY_CLIPBOARD'' \<mapsto> ''true''])
   = (None, \<lparr>console = mockEnv [] [] (Buffer (''The challenge result is 42'' @ [LF])),
             environ = [''GOAOC_DISABLE_COPY_CLIPBOARD'' \<mapsto> ''true''],
             clip = \<lparr>held = [], fault = None\<rparr>,
             calls = [Getenv ''GOAOC_DISABLE_COPY_CLIPBOARD'']\<rparr>)
   \<and> Stdout (console (snd (DefaultConsoleManager_Write ''42''
        (start (mockEnv [] [] (Buffer [])) [''GOAOC_DISABLE_COPY_CLIPBOARD'' \<mapsto> ''false'']))))
     = Buffer (''The challenge result is 42'' @ [LF] @ ''Copied to clipboard: 42'' @ [LF])
   \<and> calls (snd (DefaultConsoleManager_Write ''42''
        (start (mockEnv [] [] (Buffer [])) [''GOAOC_DISABLE_COPY_CLIPBOARD'' \<mapsto> ''false''])))
     = [Getenv ''GOAOC_DISABLE_COPY_CLIPBOARD'', CopyText ''42'']"
  using clipboard_switch [where b = "[]" and v = "''42''"
      and w = "start (mockEnv [] [] (Buffer [])) [''GOAOC_DISABLE_COPY_CLIPBOARD'' \<mapsto> ''true'']"]
    clipboard_switch [where b = "[]" and v = "''42''"
      and w = "start (mockEnv [] [] (Buffer [])) [''GOAOC_DISABLE_COPY_CLIPBOARD'' \<mapsto> ''false'']"]
  by (simp add: start_def mockEnv_def)

section \<open>The end-to-end example\<close>

lemma Itoa_3: "Itoa 3 = ''3''"
  by (simp add: Itoa_def decimal.simps digit_char_def)

lemma Itoa_6: "Itoa 6 = ''6''"
  by (simp add: Itoa_def decimal.simps digit_char_def)

lemma Run_forced_console:
  assumes "p = 1 \<or> p = 2" and "Stdout (console w) = Buffer b"
  shows "Run input one two [WithPart p] w =
           (Returned None,
            toClipboard (Itoa (if p = 1 then one input else two input))
              (w\<lparr>console := (console w)\<lparr>Stdout :=
                   Buffer (b @ ''The challenge result is ''
                             @ Itoa (if p = 1 then one input else two input) @ [LF])\<rparr>\<rparr>))"
  using assms by (auto simp add: Run_forced executeChallenge_def NewConsoleManager_def Write_Buffer)

lemma Run_forced_mock:
  assumes "p = 1 \<or> p = 2" and "Stdout (console w) = Buffer b"
  shows "Run input one two [WithManager (NewManager s e None), WithPart p] w =
           (Returned None,
            w\<lparr>console := (console w)\<lparr>Stdout :=
                 Buffer (b @ ''The challenge result is ''
                           @ Itoa (if p = 1 then one input else two input) @ [LF])\<rparr>\<rparr>)"
  using assms
  by (auto simp add: Run_forced executeChallenge_def NewManager_def Fprint_Buffer formatResult_def)

text \<open>
  Claim C1. Input \<open>abc\<close>, the two functions of the example (the length, and twice the
  length), an output stream that accepts writes. With part 1 forced \<open>Run\<close> returns nil and
  the console manager appends the line "The challenge result is 3" and a newline to the
  output, followed only by what \<open>toClipboard\<close> prints (nothing when the copy is disabled,
  else the status line of the copy); with part 2 the line reads 6. With the test manager
  of the package, which does not copy, the line is all that is written.
\<close>

theorem run_abc_writes_result_line:
  assumes "Stdout (console w) = Buffer b"
  shows "fst (Run ''abc'' partOne partTwo [WithPart 1] w) = Returned None
       \<and> Stdout (console (snd (Run ''abc'' partOne partTwo [WithPart 1] w))) =
           Buffer (b @ ''The challenge result is 3'' @ [LF]
                     @ (if environ w ''GOAOC_DISABLE_COPY_CLIPBOARD'' = Some ''true'' then []
                        else case fault (clip w) of
                               None \<Rightarrow> ''Copied to clipboard: 3'' @ [LF]
                             | Some e \<Rightarrow> ''Error copying to clipboard: '' @ Error e @ [LF]))
       \<and> fst (Run ''abc'' partOne partTwo [WithPart 2] w) = Returned None
       \<and> Stdout (console (snd (Run ''abc'' partOne partTwo [WithPart 2] w))) =
           Buffer (b @ ''The challenge result is 6'' @ [LF]
                     @ (if environ w ''GOAOC_DISABLE_COPY_CLIPBOARD'' = Some ''true'' then []
                        else case fault (clip w) of
                               None \<Rightarrow> ''Copied to clipboard: 6'' @ [LF]
                             | Some e \<Rightarrow> ''Error copying to clipboard: '' @ Error e @ [LF]))
       \<and> Run ''abc'' partOne partTwo [WithManager (NewManager s e None), WithPart 1] w =
           (Returned None,
            w\<lparr>console := (console w)\<lparr>Stdout := Buffer (b @ ''The challenge result is 3'' @ [LF])\<rparr>\<rparr>)
       \<and> Run ''abc'' partOne partTwo [WithManager (NewManager s e None), WithPart 2] w =
           (Returned None,
            w\<lparr>console := (console w)\<lparr>Stdout := Buffer (b @ ''The challenge result is 6'' @ [LF])\<rparr>\<rparr>)"
proof -
  let ?w1 = "w\<lparr>console := (console w)\<lparr>Stdout := Buffer (b @ ''The challenge result is 3'' @ [LF])\<rparr>\<rparr>"
  let ?w2 = "w\<lparr>console := (console w)\<lparr>Stdout := Buffer (b @ ''The challenge result is 6'' @ [LF])\<rparr>\<rparr>"
  have one: "Run ''abc'' partOne partTwo [WithPart 1] w = (Returned None, toClipboard ''3'' ?w1)"
    using Run_forced_console [where p = 1, OF _ assms] by (simp add: partOne_def Itoa_3)
  have two: "Run ''abc'' partOne partTwo [WithPart 2] w = (Returned None, toClipboard ''6'' ?w2)"
    using Run_forced_console [where p = 2, OF _ assms] by (simp add: partTwo_def Itoa_6)
  have out1: "Stdout (console ?w1) = Buffer (b @ ''The challenge result is 3'' @ [LF])"
    by simp
  have out2: "Stdout (console ?w2) = Buffer (b @ ''The challenge result is 6'' @ [LF])"
    by simp
  have c1: "fst (Run ''abc'' partOne partTwo [WithPart 1] w) = Returned None"
    by (simp add: one)
  have c2: "Stdout (console (snd (Run ''abc'' partOne partTwo [WithPart 1] w))) =
           Buffer (b @ ''The challenge result is 3'' @ [LF]
                     @ (if environ w ''GOAOC_DISABLE_COPY_CLIPBOARD'' = Some ''true'' then []
                        else case fault (clip w) of
                               None \<Rightarrow> ''Copied to clipboard: 3'' @ [LF]
                             | Some e \<Rightarrow> ''Error copying to clipboard: '' @ Error e @ [LF]))"
    using toClipboard_Stdout [OF out1, of "''3''"] by (simp add: one split: option.splits)
  have c3: "fst (Run ''abc'' partOne partTwo [WithPart 2] w) = Returned None"
    by (simp add: two)
  have c4: "Stdout (console (snd (Run ''abc'' partOne partTwo [WithPart 2] w))) =
           Buffer (b @ ''The challenge result is 6'' @ [LF]
                     @ (if environ w ''GOAOC_DISABLE_COPY_CLIPBOARD'' = Some ''true'' then []
                        else case fault (clip w) of
                               None \<Rightarrow> ''Copied to clipboard: 6'' @ [LF]
                             | Some e \<Rightarrow> ''Error copying to clipboard: '' @ Error e @ [LF]))"
    using toClipboard_Stdout [OF out2, of "''6''"] by (simp add: two split: option.splits)
  have c5: "Run ''abc'' partOne partTwo [WithManager (NewManager s e None), WithPart 1] w =
           (Returned None, ?w1)"
    using Run_forced_mock [where p = 1, OF _ assms] by (simp add: partOne_def Itoa_3)
  have c6: "Run ''abc'' partOne partTwo [WithManager (NewManager s e None), WithPart 2] w =
           (Returned None, ?w2)"
    using Run_forced_mock [where p = 2, OF _ assms] by (simp add: partTwo_def Itoa_6)
  from c1 c2 c3 c4 c5 c6 show ?thesis by (intro conjI)
qed

theorem run_abc_writes_result_line_witness:
  "Stdout (console (snd (Run ''abc'' partOne partTwo [WithPart 1]
      (start (mockEnv [] [] (Buffer [])) [''GOAOC_DISABLE_COPY_CLIPBOARD'' \<mapsto> ''true'']))))
     = Buffer (''The challenge result is 3'' @ [LF])
   \<and> Stdout (console (snd (Run ''abc'' partOne partTwo [WithPart 2]
      (start (mockEnv [] [] (Buffer [])) [''GOAOC_DISABLE_COPY_CLIPBOARD'' \<mapsto> ''true'']))))
     = Buffer (''The challenge result is 6'' @ [LF])
   \<and> Stdout (console (snd (Run ''abc'' partOne partTwo [WithPart 1]
      (start (mockEnv [] [] (Buffer [])) Map.empty))))
     = Buffer (''The challenge result is 3'' @ [LF] @ ''Copied to clipboard: 3'' @ [LF])
   \<and> Run ''abc'' partOne partTwo [WithManager (NewManager [] None None), WithPart 2]
         (start (mockEnv [] [] (Buffer [])) Map.empty)
     = (Returned None, start (mockEnv [] [] (Buffer (''The challenge result is 6'' @ [LF]))) Map.empty)"
  using run_abc_writes_result_line [where b = "[]" and s = "[]" and e = None
      and w = "start (mockEnv [] [] (Buffer [])) [''GOAOC_DISABLE_COPY_CLIPBOARD'' \<mapsto> ''true'']"]
    run_abc_writes_result_line [where b = "[]" and s = "[]" and e = None
      and w = "start (mockEnv [] [] (Buffer [])) Map.empty"]
  by (simp add: start_def mockEnv_def)

section \<open>Resolving the part\<close>

subsection \<open>The checks of the console manager\<close>

text \<open>
  Printing touches the output stream only: the lookups, the environment, the clipboard,
  the input stream and the arguments stay as they are.
\<close>

lemma print_all_keeps:
  "calls (print_all out w) = calls w"
  "environ (print_all out w) = environ w"
  "clip (print_all out w) = clip w"
  "Stdin (console (print_all out w)) = Stdin (console w)"
  "Args (console (print_all out w)) = Args (console w)"
  by (induction out arbitrary: w; simp add: Fprint_keeps)+

lemma print_all_Buffer:
  "Stdout (console w) = Buffer b \<Longrightarrow>
   print_all out w = w\<lparr>console := (console w)\<lparr>Stdout := Buffer (b @ concat out)\<rparr>\<rparr>"
  by (induction out arbitrary: w b) (simp_all add: Fprint_Buffer)


lemma getPartInFlag_failed:
  "fs_Parse (Args (console w)) [] = (p, Some (err, out)) \<Longrightarrow>
   getPartInFlag w = (([], Some (IOReadError err)), print_all out w)"
  by (simp add: getPartInFlag_def)

lemma getPartInFlag_cases:
  "(\<exists>p. getPartInFlag w = ((p, None), w)) \<or>
   (\<exists>err out. getPartInFlag w = (([], Some (IOReadError err)), print_all out w))"
  by (auto simp add: getPartInFlag_def split: prod.splits option.splits)

lemma getPartInEnv_eq:
  "getPartInEnv w =
     (((case environ w ''GOAOC_CHALLENGE_PART'' of None \<Rightarrow> [] | Some v \<Rightarrow> v), None),
      w\<lparr>calls := calls w @ [Getenv ''GOAOC_CHALLENGE_PART'']\<rparr>)"
  by (simp add: getPartInEnv_def os_Getenv_def)

lemma Read_part:
  "DefaultConsoleManager_Read ''part'' w = run_checks [getPartInFlag, getPartInEnv, getPartInStdin] [] w"
  by (simp add: DefaultConsoleManager_Read_def checks_def)

text \<open>
  The loop leaves at the first check that fails or returns a non-empty string, whatever
  checks come after it.
\<close>

lemma run_checks_stops:
  "check w = ((p, None), w') \<Longrightarrow> p \<noteq> [] \<Longrightarrow>
   run_checks (check # rest) q w = ((p, None), w')"
  by simp

lemma run_checks_fails:
  "check w = ((p, Some err), w') \<Longrightarrow> run_checks (check # rest) q w = (([], Some err), w')"
  by simp


subsection \<open>What \<open>Run\<close> does with the string read\<close>

lemma injectOptions_unforced:
  "injectOptions \<lparr>manager = None, part = 0\<rparr> [WithManager m] w =
     (case Read m ''part'' w of
        ((partStr, Some err), w') \<Rightarrow> ((Some err, \<lparr>manager = Some m, part = 0\<rparr>), w')
      | ((partStr, None), w') \<Rightarrow>
          (case Atoi partStr of
             Inl err \<Rightarrow> ((Some ErrInvalidPartType, \<lparr>manager = Some m, part = 0\<rparr>), w')
           | Inr p \<Rightarrow>
               if p \<noteq> 1 \<and> p \<noteq> 2
               then ((Some (InvalidPartError p), \<lparr>manager = Some m, part = 0\<rparr>), w')
               else ((None, \<lparr>manager = Some m, part = p\<rparr>), w')))"
  by (simp add: injectOptions_def WithManager_def Let_def NewPart_def
      split: prod.splits option.splits sum.splits)

lemma injectOptions_default:
  "injectOptions \<lparr>manager = None, part = 0\<rparr> [] w
     = injectOptions \<lparr>manager = None, part = 0\<rparr> [WithManager NewConsoleManager] w"
  by (simp add: injectOptions_def WithManager_def Let_def NewPart_def
      split: prod.splits option.splits sum.splits)

lemma Run_default:
  "Run input one two [] w = Run input one two [WithManager NewConsoleManager] w"
  by (simp add: Run_def injectOptions_default)

lemma Read_console: "Read NewConsoleManager = DefaultConsoleManager_Read"
  by (simp add: NewConsoleManager_def)

lemma Run_read_error:
  "Read m ''part'' w = ((s, Some err), w') \<Longrightarrow>
   Run input one two [WithManager m] w = (Returned (Some err), w')"
  by (simp add: Run_def injectOptions_unforced)

lemma Run_atoi_error:
  "Read m ''part'' w = ((s, None), w') \<Longrightarrow> Atoi s = Inl e \<Longrightarrow>
   Run input one two [WithManager m] w = (Returned (Some ErrInvalidPartType), w')"
  by (simp add: Run_def injectOptions_unforced)

lemma Run_invalid_part:
  "Read m ''part'' w = ((s, None), w') \<Longrightarrow> Atoi s = Inr v \<Longrightarrow> v \<noteq> 1 \<Longrightarrow> v \<noteq> 2 \<Longrightarrow>
   Run input one two [WithManager m] w = (Returned (Some (InvalidPartError v)), w')"
  by (simp add: Run_def injectOptions_unforced)

lemma Run_valid_part:
  assumes "Read m ''part'' w = ((s, None), w')" and "Atoi s = Inr v" and "v = 1 \<or> v = 2"
  shows "Run input one two [WithManager m] w =
           (case Write m (Itoa (if v = 1 then one input else two input)) w' of
              (err, w2) \<Rightarrow> (Returned err, w2))"
  using assms
  by (auto simp add: Run_def injectOptions_unforced executeChallenge_def
      split: prod.splits option.splits)

lemma Atoi_ss: "Atoi ''ss'' = Inl ErrSyntax"
  by (simp add: Atoi_def digit_val_def)

lemma Atoi_true: "Atoi ''true'' = Inl ErrSyntax"
  by (simp add: Atoi_def digit_val_def)

lemma Atoi_empty: "Atoi [] = Inl ErrSyntax"
  by (simp add: Atoi_def)

lemma Atoi_0: "Atoi ''0'' = Inr 0"
  by (simp add: Atoi_def digit_val_def)

lemma Atoi_3: "Atoi ''3'' = Inr 3"
  by (simp add: Atoi_def digit_val_def)

subsection \<open>Precedence of the sources\<close>

text \<open>
  Claim C2. In \<open>Read\<close> of the console manager the first source, in the order flag,
  environment variable, input stream, that returns a non-empty string without an error
  gives the result, and no later source is queried. When the flag gives it, the world is
  left as it was: no lookup was made, whatever GOAOC_CHALLENGE_PART holds, so the flag
  wins over the variable. When the flag gives nothing and the variable gives it, the only
  change is the one lookup of the variable: nothing was printed and the input stream was
  not scanned. When both give nothing, the string scanned from the input stream is the
  result.
\<close>

theorem first_source_wins:
  "(getPartInFlag w = ((p, None), w1) \<and> p \<noteq> [] \<longrightarrow>
      DefaultConsoleManager_Read ''part'' w = ((p, None), w1) \<and> w1 = w)
 \<and> (getPartInFlag w = (([], None), w1) \<and> getPartInEnv w1 = ((p, None), w2) \<and> p \<noteq> [] \<longrightarrow>
      DefaultConsoleManager_Read ''part'' w = ((p, None), w2)
      \<and> w2 = w\<lparr>calls := calls w @ [Getenv ''GOAOC_CHALLENGE_PART'']\<rparr>)
 \<and> (getPartInFlag w = (([], None), w1) \<and> getPartInEnv w1 = (([], None), w2)
      \<and> getPartInStdin w2 = ((p, None), w3) \<and> p \<noteq> [] \<longrightarrow>
      DefaultConsoleManager_Read ''part'' w = ((p, None), w3))"
proof (intro conjI impI)
  assume a: "getPartInFlag w = ((p, None), w1) \<and> p \<noteq> []"
  then show "DefaultConsoleManager_Read ''part'' w = ((p, None), w1)"
    by (simp add: Read_part)
  from a getPartInFlag_cases [of w] show "w1 = w" by auto
next
  assume a: "getPartInFlag w = (([], None), w1) \<and> getPartInEnv w1 = ((p, None), w2) \<and> p \<noteq> []"
  then show "DefaultConsoleManager_Read ''part'' w = ((p, None), w2)"
    by (simp add: Read_part)
  from a getPartInFlag_cases [of w] have "w1 = w" by auto
  with a show "w2 = w\<lparr>calls := calls w @ [Getenv ''GOAOC_CHALLENGE_PART'']\<rparr>"
    by (simp add: getPartInEnv_eq)
next
  assume "getPartInFlag w = (([], None), w1) \<and> getPartInEnv w1 = (([], None), w2)
            \<and> getPartInStdin w2 = ((p, None), w3) \<and> p \<noteq> []"
  then show "DefaultConsoleManager_Read ''part'' w = ((p, None), w3)"
    by (simp add: Read_part)
qed

text \<open>
  Flag \<open>-part=1\<close> with the variable set to 2 and 2 waiting on the input: the result is 1
  and no lookup is made. No flag, the variable set to 2 and 1 waiting on the input: the
  result is 2 after the one lookup. Neither flag nor variable, 1 on the input: 1.
\<close>

theorem first_source_wins_witness:
  "DefaultConsoleManager_Read ''part''
      (start (mockEnv [''-part=1''] (''2'' @ [LF]) (Buffer [])) [''GOAOC_CHALLENGE_PART'' \<mapsto> ''2''])
     = ((''1'', None),
        start (mockEnv [''-part=1''] (''2'' @ [LF]) (Buffer [])) [''GOAOC_CHALLENGE_PART'' \<mapsto> ''2''])
   \<and> DefaultConsoleManager_Read ''part''
      (start (mockEnv [] (''1'' @ [LF]) (Buffer [])) [''GOAOC_CHALLENGE_PART'' \<mapsto> ''2''])
     = ((''2'', None),
        (start (mockEnv [] (''1'' @ [LF]) (Buffer [])) [''GOAOC_CHALLENGE_PART'' \<mapsto> ''2''])
          \<lparr>calls := [Getenv ''GOAOC_CHALLENGE_PART'']\<rparr>)
   \<and> fst (DefaultConsoleManager_Read ''part''
      (start (mockEnv [] (''1'' @ [LF]) (Buffer [])) Map.empty)) = (''1'', None)"
proof -
  let ?A = "start (mockEnv [''-part=1''] (''2'' @ [LF]) (Buffer [])) [''GOAOC_CHALLENGE_PART'' \<mapsto> ''2'']"
  let ?B = "start (mockEnv [] (''1'' @ [LF]) (Buffer [])) [''GOAOC_CHALLENGE_PART'' \<mapsto> ''2'']"
  let ?B2 = "?B\<lparr>calls := [Getenv ''GOAOC_CHALLENGE_PART'']\<rparr>"
  let ?C = "start (mockEnv [] (''1'' @ [LF]) (Buffer [])) Map.empty"
  let ?C2 = "?C\<lparr>calls := [Getenv ''GOAOC_CHALLENGE_PART'']\<rparr>"
  have a: "getPartInFlag ?A = ((''1'', None), ?A)"
    by (simp add: getPartInFlag_def start_def mockEnv_def)
  have b1: "getPartInFlag ?B = (([], None), ?B)"
    by (simp add: getPartInFlag_def start_def mockEnv_def)
  have b2: "getPartInEnv ?B = ((''2'', None), ?B2)"
    by (simp add: getPartInEnv_eq start_def)
  have c1: "getPartInFlag ?C = (([], None), ?C)"
    by (simp add: getPartInFlag_def start_def mockEnv_def)
  have c2: "getPartInEnv ?C = (([], None), ?C2)"
    by (simp add: getPartInEnv_eq start_def)
  let ?C3 = "\<lparr>console = \<lparr>Stdin = \<lparr>pending = [], at_end = EOF\<rparr>,
                          Stdout = Buffer (''Which part do you want to run? (1/2)'' @ [LF]),
                          Args = []\<rparr>,
              environ = Map.empty, clip = \<lparr>held = [], fault = None\<rparr>,
              calls = [Getenv ''GOAOC_CHALLENGE_PART'', Fscanln]\<rparr>"
  have c3: "getPartInStdin ?C2 = ((''1'', None), ?C3)"
    by (simp add: getPartInStdin_def Fprint_def fmt_Fscanln_def scanln_def isSpace_def LF_def
        start_def mockEnv_def)
  from first_source_wins [where w = ?A and p = "''1''" and ?w1.0 = ?A] a
  have ra: "DefaultConsoleManager_Read ''part'' ?A = ((''1'', None), ?A)"
    by simp
  from first_source_wins [where w = ?B and p = "''2''" and ?w1.0 = ?B and ?w2.0 = ?B2] b1 b2
  have rb: "DefaultConsoleManager_Read ''part'' ?B = ((''2'', None), ?B2)"
    by simp
  from first_source_wins [where w = ?C and p = "''1''" and ?w1.0 = ?C and ?w2.0 = ?C2
      and ?w3.0 = ?C3] c1 c2 c3
  have rc: "fst (DefaultConsoleManager_Read ''part'' ?C) = (''1'', None)"
    by simp
  from ra rb rc show ?thesis by (intro conjI)
qed

text \<open>
  Claim C7. When the parsing of the flags fails (a flag that is not defined, bad flag
  syntax, a flag without its value, a request for help), \<open>Read\<close> returns that error in an
  \<open>IOReadError\<close> at once and \<open>Run\<close> returns it: the only effect is what the flag
  package printed, no lookup of the variable and no scan of the input stream were made,
  and the input stream is as it was.
\<close>

theorem flag_failure_short_circuits:
  assumes "fs_Parse (Args (console w)) [] = (p, Some (err, out))"
  shows "DefaultConsoleManager_Read ''part'' w = (([], Some (IOReadError err)), print_all out w)
       \<and> Run input one two [] w = (Returned (Some (IOReadError err)), print_all out w)
       \<and> calls (print_all out w) = calls w
       \<and> Stdin (console (print_all out w)) = Stdin (console w)"
proof -
  have r: "DefaultConsoleManager_Read ''part'' w = (([], Some (IOReadError err)), print_all out w)"
    using getPartInFlag_failed [OF assms] by (simp add: Read_part)
  then have "Run input one two [] w = (Returned (Some (IOReadError err)), print_all out w)"
    by (simp add: Run_default Run_read_error Read_console)
  with r show ?thesis by (simp add: print_all_keeps)
qed

text \<open>
  The case of io_test.go: the flag \<open>--test\<close> is not defined; the variable is set and a
  line waits on the input, and neither is looked at.
\<close>

theorem flag_failure_short_circuits_witness:
  "fst (DefaultConsoleManager_Read ''part''
      (start (mockEnv [''--test''] (''1'' @ [LF]) (Buffer [])) [''GOAOC_CHALLENGE_PART'' \<mapsto> ''2'']))
     = ([], Some (IOReadError (ErrorString ''flag provided but not defined: -test'')))
   \<and> fst (Run ''input'' mockPartOne mockPartTwo []
      (start (mockEnv [''--test''] (''1'' @ [LF]) (Buffer [])) [''GOAOC_CHALLENGE_PART'' \<mapsto> ''2'']))
     = Returned (Some (IOReadError (ErrorString ''flag provided but not defined: -test'')))
   \<and> calls (snd (Run ''input'' mockPartOne mockPartTwo []
      (start (mockEnv [''--test''] (''1'' @ [LF]) (Buffer [])) [''GOAOC_CHALLENGE_PART'' \<mapsto> ''2''])))
     = []
   \<and> Stdin (console (snd (Run ''input'' mockPartOne mockPartTwo []
      (start (mockEnv [''--test''] (''1'' @ [LF]) (Buffer [])) [''GOAOC_CHALLENGE_PART'' \<mapsto> ''2'']))))
     = \<lparr>pending = ''1'' @ [LF], at_end = EOF\<rparr>"
proof -
  let ?w = "start (mockEnv [''--test''] (''1'' @ [LF]) (Buffer [])) [''GOAOC_CHALLENGE_PART'' \<mapsto> ''2'']"
  have p: "fs_Parse (Args (console ?w)) []
             = ([], Some (ErrorString ''flag provided but not defined: -test'',
                          (''flag provided but not defined: -test'' @ [LF]) # usage))"
    by (simp add: start_def mockEnv_def failf_def)
  have "calls ?w = []" "Stdin (console ?w) = \<lparr>pending = ''1'' @ [LF], at_end = EOF\<rparr>"
    by (simp_all add: start_def mockEnv_def)
  with flag_failure_short_circuits [OF p, of "''input''" mockPartOne mockPartTwo]
  show ?thesis by simp
qed

subsection \<open>Failures of the resolution\<close>



text \<open>
  Claim C5. Whatever manager and whatever source produced it: when the string that
  \<open>Read\<close> returns is not accepted by strconv.Atoi, \<open>Run\<close> returns
  \<open>ErrInvalidPartType\<close>, and the error of Atoi itself is dropped. Without a manager
  option this is the console manager's \<open>Read\<close>.
\<close>

theorem unparsable_part_is_invalid_type:
  assumes "Read m ''part'' w = ((s, None), w')" and "Atoi s = Inl e"
  shows "Run input one two [WithManager m] w = (Returned (Some ErrInvalidPartType), w')
       \<and> (m = NewConsoleManager \<longrightarrow>
            Run input one two [] w = (Returned (Some ErrInvalidPartType), w'))"
  using assms by (auto simp add: Run_atoi_error Run_default)

text \<open>
  \<open>ss\<close> from the environment variable, \<open>true\<close> from the flag, and the empty string
  from the test manager.
\<close>

theorem unparsable_part_is_invalid_type_witness:
  "fst (Run ''input'' mockPartOne mockPartTwo []
      (start (mockEnv [] [] (Buffer [])) [''GOAOC_CHALLENGE_PART'' \<mapsto> ''ss'']))
     = Returned (Some ErrInvalidPartType)
   \<and> fst (Run ''input'' mockPartOne mockPartTwo []
      (start (mockEnv [''-part=true''] [] (Buffer [])) Map.empty))
     = Returned (Some ErrInvalidPartType)
   \<and> fst (Run ''input'' mockPartOne mockPartTwo [WithManager (NewManager [] None None)]
      (start (mockEnv [] [] (Buffer [])) Map.empty))
     = Returned (Some ErrInvalidPartType)"
proof -
  let ?A = "start (mockEnv [] [] (Buffer [])) [''GOAOC_CHALLENGE_PART'' \<mapsto> ''ss'']"
  let ?B = "start (mockEnv [''-part=true''] [] (Buffer [])) Map.empty"
  let ?C = "start (mockEnv [] [] (Buffer [])) Map.empty"
  have a: "Read NewConsoleManager ''part'' ?A
             = ((''ss'', None), ?A\<lparr>calls := [Getenv ''GOAOC_CHALLENGE_PART'']\<rparr>)"
    by (simp add: Read_console Read_part getPartInFlag_def getPartInEnv_eq start_def mockEnv_def)
  have b: "Read NewConsoleManager ''part'' ?B = ((''true'', None), ?B)"
    by (simp add: Read_console Read_part getPartInFlag_def start_def mockEnv_def)
  have c: "Read (NewManager [] None None) ''part'' ?C = (([], None), ?C)"
    by (simp add: NewManager_def)
  from unparsable_part_is_invalid_type [OF a Atoi_ss, of "''input''" mockPartOne mockPartTwo]
    unparsable_part_is_invalid_type [OF b Atoi_true, of "''input''" mockPartOne mockPartTwo]
    unparsable_part_is_invalid_type [OF c Atoi_empty, of "''input''" mockPartOne mockPartTwo]
  show ?thesis by simp
qed

text \<open>
  Claim C6. When the string that \<open>Read\<close> returns is the decimal form of an int \<open>v\<close>
  other than 1 and 2, \<open>Run\<close> returns \<open>InvalidPartError\<close> with \<open>v\<close> in it.
\<close>

theorem part_outside_1_2_is_invalid:
  assumes "Read m ''part'' w = ((s, None), w')" and "Atoi s = Inr v" and "v \<noteq> 1" and "v \<noteq> 2"
  shows "Run input one two [WithManager m] w = (Returned (Some (InvalidPartError v)), w')
       \<and> (m = NewConsoleManager \<longrightarrow>
            Run input one two [] w = (Returned (Some (InvalidPartError v)), w'))"
  using assms by (auto simp add: Run_invalid_part Run_default)

text \<open>
  3 from the environment variable and 0 from the test manager, as in goaoc_test.go.
\<close>

theorem part_outside_1_2_is_invalid_witness:
  "fst (Run ''input'' mockPartOne mockPartTwo []
      (start (mockEnv [] [] (Buffer [])) [''GOAOC_CHALLENGE_PART'' \<mapsto> ''3'']))
     = Returned (Some (InvalidPartError 3))
   \<and> fst (Run ''input'' mockPartOne mockPartTwo [WithManager (NewManager ''0'' None None)]
      (start (mockEnv [] [] (Buffer [])) Map.empty))
     = Returned (Some (InvalidPartError 0))
   \<and> Error (InvalidPartError 3) = ''invalid part: 3. The valid parts are (1/2)''"
proof -
  let ?A = "start (mockEnv [] [] (Buffer [])) [''GOAOC_CHALLENGE_PART'' \<mapsto> ''3'']"
  let ?C = "start (mockEnv [] [] (Buffer [])) Map.empty"
  have a: "Read NewConsoleManager ''part'' ?A
             = ((''3'', None), ?A\<lparr>calls := [Getenv ''GOAOC_CHALLENGE_PART'']\<rparr>)"
    by (simp add: Read_console Read_part getPartInFlag_def getPartInEnv_eq start_def mockEnv_def)
  have c: "Read (NewManager ''0'' None None) ''part'' ?C = ((''0'', None), ?C)"
    by (simp add: NewManager_def)
  have m: "Error (InvalidPartError 3) = ''invalid part: 3. The valid parts are (1/2)''"
    by (simp add: Itoa_3)
  from part_outside_1_2_is_invalid [OF a Atoi_3, of "''input''" mockPartOne mockPartTwo]
    part_outside_1_2_is_invalid [OF c Atoi_0, of "''input''" mockPartOne mockPartTwo] m
  show ?thesis by simp
qed

subsection \<open>A failed scan of the input stream\<close>

text \<open>
  Claim C8. The claim is that a scan of the input stream that fails for another reason
  than the end of the input makes the resolution fail with an \<open>IOReadError\<close> that
  carries the cause. \<open>getPartInStdin\<close> looks at the error of the scan only to test for
  io.EOF and drops every other error. On an input stream that fails with an input/output
  error the scan reports that error, and \<open>Read\<close> and \<open>Run\<close> fail with \<open>ErrMissingPart\<close>
  in the \<open>IOReadError\<close>, not with the cause. On the input line \<open>1 2\<close> the scan reports
  "expected newline", and \<open>Read\<close> returns 1 with no error and \<open>Run\<close> succeeds.
\<close>

theorem stdin_failure_is_dropped:
  "fst (scanln (Stdin brokenEnv)) = ([], Some (ErrorString ''input/output error''))
   \<and> fst (DefaultConsoleManager_Read ''part'' (start brokenEnv Map.empty))
       = ([], Some (IOReadError ErrMissingPart))
   \<and> fst (Run ''input'' mockPartOne mockPartTwo [] (start brokenEnv Map.empty))
       = Returned (Some (IOReadError ErrMissingPart))
   \<and> fst (scanln (Stdin (mockEnv [] (''1 2'' @ [LF]) (Buffer []))))
       = (''1'', Some (ErrorString ''expected newline''))
   \<and> fst (DefaultConsoleManager_Read ''part''
            (start (mockEnv [] (''1 2'' @ [LF]) (Buffer [])) Map.empty))
       = (''1'', None)
   \<and> fst (Run ''input'' mockPartOne mockPartTwo []
            (start (mockEnv [] (''1 2'' @ [LF]) (Buffer [])) Map.empty))
       = Returned None"
proof -
  let ?b = "start brokenEnv Map.empty"
  let ?t = "start (mockEnv [] (''1 2'' @ [LF]) (Buffer [])) Map.empty"
  have s1: "fst (scanln (Stdin brokenEnv)) = ([], Some (ErrorString ''input/output error''))"
    by (simp add: scanln_def brokenEnv_def)
  have r1: "fst (DefaultConsoleManager_Read ''part'' ?b) = ([], Some (IOReadError ErrMissingPart))"
    by (simp add: Read_part getPartInFlag_def getPartInEnv_eq getPartInStdin_def Fprint_def
        fmt_Fscanln_def scanln_def start_def brokenEnv_def)
  have u1: "fst (Run ''input'' mockPartOne mockPartTwo [] ?b)
              = Returned (Some (IOReadError ErrMissingPart))"
    using r1 by (cases "DefaultConsoleManager_Read ''part'' ?b")
      (simp add: Run_default Run_read_error Read_console)
  have s2: "fst (scanln (Stdin (mockEnv [] (''1 2'' @ [LF]) (Buffer []))))
              = (''1'', Some (ErrorString ''expected newline''))"
    by (simp add: scanln_def mockEnv_def isSpace_def LF_def)
  have r2: "DefaultConsoleManager_Read ''part'' ?t =
              ((''1'', None),
               \<lparr>console = \<lparr>Stdin = \<lparr>pending = [LF], at_end = EOF\<rparr>,
                           Stdout = Buffer (''Which part do you want to run? (1/2)'' @ [LF]),
                           Args = []\<rparr>,
                environ = Map.empty, clip = \<lparr>held = [], fault = None\<rparr>,
                calls = [Getenv ''GOAOC_CHALLENGE_PART'', Fscanln]\<rparr>)"
    by (simp add: Read_part getPartInFlag_def getPartInEnv_eq getPartInStdin_def Fprint_def
        fmt_Fscanln_def scanln_def isSpace_def LF_def start_def mockEnv_def)
  have a1: "Atoi ''1'' = Inr 1"
    by (simp add: Atoi_def digit_val_def)
  have r2': "Read NewConsoleManager ''part'' ?t =
              ((''1'', None),
               \<lparr>console = \<lparr>Stdin = \<lparr>pending = [LF], at_end = EOF\<rparr>,
                           Stdout = Buffer (''Which part do you want to run? (1/2)'' @ [LF]),
                           Args = []\<rparr>,
                environ = Map.empty, clip = \<lparr>held = [], fault = None\<rparr>,
                calls = [Getenv ''GOAOC_CHALLENGE_PART'', Fscanln]\<rparr>)"
    using r2 by (simp only: Read_console)
  have u2: "fst (Run ''input'' mockPartOne mockPartTwo [] ?t) = Returned None"
    using Run_valid_part [OF r2' a1, of "''input''" mockPartOne mockPartTwo]
    by (simp add: Run_default NewConsoleManager_def Write_Buffer)
  from s1 r1 u1 s2 r2 u2 show ?thesis by simp
qed

end
